theory Spec2Isabelle
  imports Complex_Main
begin

section \<open>Values of the parsed payload\<close>

text \<open>
  The dashboard component reads whatever \<^verbatim>\<open>JSON.parse\<close> returns (its type in the
  source is \<^verbatim>\<open>any\<close>), so the model works on arbitrary JSON values. The JavaScript
  value \<^verbatim>\<open>undefined\<close> is \<open>None\<close> in \<open>json option\<close>. Finite doubles are
  modelled by the reals they denote: the component only copies numbers, compares them
  with zero and takes absolute values, all of which are exact.
  An object lists its own properties, the key of each occurring once.
\<close>

datatype json =
    JNull
  | JBool bool
  | JNum real
  | JStr string
  | JArr "json list"
  | JObj "(string \<times> json) list"

text \<open>Thrown values: \<^verbatim>\<open>new Error(msg)\<close> of the source, and the engine's own
  \<^verbatim>\<open>TypeError\<close>, which carries the place that raised it: the rejected
  \<^verbatim>\<open>fetch\<close>, the read of \<^verbatim>\<open>rawData.table\<close> on null, the call of
  \<^verbatim>\<open>rows.forEach\<close> on a value that has no such function, and \<^verbatim>\<open>String(cell.v)\<close>
  on an object without a usable \<^verbatim>\<open>toString\<close>.\<close>

datatype site = Fetch | Read_table | Call_forEach | Convert_String

datatype exn = Error string | TypeError site

text \<open>The three failures the component raises itself.\<close>

definition TransportError :: exn where
  "TransportError = Error ''Data sync failed''"

definition FormatError :: exn where
  "FormatError = Error ''Invalid data format from Google Sheets''"

definition EmptyDatasetError :: exn where
  "EmptyDatasetError = Error ''No dataset records found''"

text \<open>Truthiness of a value (\<^verbatim>\<open>!x\<close>, \<^verbatim>\<open>x && ...\<close>, \<^verbatim>\<open>x || ...\<close>).\<close>

fun truthy :: "json option \<Rightarrow> bool" where
  "truthy None = False"
| "truthy (Some JNull) = False"
| "truthy (Some (JBool b)) = b"
| "truthy (Some (JNum n)) = (n \<noteq> 0)"
| "truthy (Some (JStr s)) = (s \<noteq> [])"
| "truthy (Some (JArr xs)) = True"
| "truthy (Some (JObj kvs)) = True"

text \<open>Reading one of the properties \<^verbatim>\<open>table\<close>, \<^verbatim>\<open>rows\<close>, \<^verbatim>\<open>c\<close>, \<^verbatim>\<open>v\<close> of a
  value that is neither null nor undefined: only an object can own them, and no
  prototype defines them.\<close>

fun own_prop :: "json \<Rightarrow> string \<Rightarrow> json option" where
  "own_prop (JObj kvs) k = map_of kvs k"
| "own_prop _ k = None"

text \<open>Optional chaining \<^verbatim>\<open>x?.k\<close>.\<close>

fun opt_chain :: "json option \<Rightarrow> string \<Rightarrow> json option" where
  "opt_chain None k = None"
| "opt_chain (Some JNull) k = None"
| "opt_chain (Some x) k = own_prop x k"

text \<open>The property key of an index: its decimal digits.\<close>

definition digit_char :: "nat \<Rightarrow> char" where
  "digit_char d = ''0123456789'' ! d"

fun dec_key :: "nat \<Rightarrow> string" where
  "dec_key n = (if n < 10 then [digit_char n] else dec_key (n div 10) @ [digit_char (n mod 10)])"

declare dec_key.simps [simp del]

text \<open>Indexing \<^verbatim>\<open>x[i]\<close> of a value that is neither null nor undefined: an element of
  an array, a one-character string of a string, the property named by the digits of
  an object, undefined otherwise and out of range.\<close>

fun js_at :: "json \<Rightarrow> nat \<Rightarrow> json option" where
  "js_at (JArr xs) i = (if i < length xs then Some (xs ! i) else None)"
| "js_at (JStr s) i = (if i < length s then Some (JStr [s ! i]) else None)"
| "js_at (JObj kvs) i = map_of kvs (dec_key i)"
| "js_at _ i = None"

text \<open>The property \<^verbatim>\<open>length\<close>.\<close>

fun js_length :: "json \<Rightarrow> json option" where
  "js_length (JArr xs) = Some (JNum (real (length xs)))"
| "js_length (JStr s) = Some (JNum (real (length s)))"
| "js_length (JObj kvs) = map_of kvs ''length''"
| "js_length _ = None"

fun join_comma :: "string list \<Rightarrow> string" where
  "join_comma [] = []"
| "join_comma [s] = s"
| "join_comma (s # t # ss) = s @ '','' @ join_comma (t # ss)"

text \<open>\<^verbatim>\<open>String(x)\<close>. The digits of a number are the engine's (\<open>ns\<close>). An array joins
  the conversions of its elements, null elements giving the empty string. An object
  answers \<^verbatim>\<open>[object Object]\<close> through the inherited \<^verbatim>\<open>toString\<close>; an own property
  \<^verbatim>\<open>toString\<close> (never callable in parsed JSON) hides it, the inherited \<^verbatim>\<open>valueOf\<close>
  returns the object itself, and the conversion throws a TypeError (\<open>None\<close>).\<close>

fun js_String :: "(real \<Rightarrow> string) \<Rightarrow> json \<Rightarrow> string option" where
  "js_String ns JNull = Some ''null''"
| "js_String ns (JBool b) = Some (if b then ''true'' else ''false'')"
| "js_String ns (JNum n) = Some (ns n)"
| "js_String ns (JStr s) = Some s"
| "js_String ns (JArr xs) =
     map_option join_comma
       (those (map (\<lambda>x. case x of JNull \<Rightarrow> Some [] | _ \<Rightarrow> js_String ns x) xs))"
| "js_String ns (JObj kvs) =
     (if map_of kvs ''toString'' = None then Some ''[object Object]'' else None)"

section \<open>The shared types (types.ts)\<close>

record KPIData =
  totalOpportunities :: real
  qualifiedConversations :: real
  convertedClients :: real
  conversionRate :: real
  totalRevenue :: real
  activeClientLoad :: real

record RevenueTrend =
  month :: string
  revenue :: real

record WeeklyConversation =
  week :: string
  count :: real

text \<open>Two fields of a source conversion carry a prefix here: \<^verbatim>\<open>qualified\<close> is
  \<open>sc_qualified\<close> (the word is reserved) and \<^verbatim>\<open>revenue\<close> is \<open>sc_revenue\<close> (the name
  is taken by the revenue trend).\<close>

record SourceConversion =
  source :: string
  sc_qualified :: real
  converted :: real
  rate :: real
  sc_revenue :: real

text \<open>The component's state: \<^verbatim>\<open>DashboardState & { timeFilter: string }\<close>. A date is
  the number of its instant.\<close>

record DashboardState =
  kpis :: "KPIData option"
  revenueTrend :: "RevenueTrend list"
  weeklyConversations :: "WeeklyConversation list"
  sourceConversions :: "SourceConversion list"
  loading :: bool
  error :: "string option"
  lastUpdated :: "nat option"
  timeFilter :: string

section \<open>The parser (utils.ts)\<close>

text \<open>\<^verbatim>\<open>indexOf\<close> and \<^verbatim>\<open>lastIndexOf\<close> of a character: its first and last position,
  or -1.\<close>

fun indexOf :: "string \<Rightarrow> char \<Rightarrow> int" where
  "indexOf [] c = - 1"
| "indexOf (x # xs) c =
     (if x = c then 0 else (let i = indexOf xs c in if i < 0 then - 1 else i + 1))"

fun lastIndexOf :: "string \<Rightarrow> char \<Rightarrow> int" where
  "lastIndexOf [] c = - 1"
| "lastIndexOf (x # xs) c =
     (let i = lastIndexOf xs c in if 0 \<le> i then i + 1 else if x = c then 0 else - 1)"

text \<open>\<^verbatim>\<open>substring(a, b)\<close>: both bounds are clamped to the string, and swapped when
  the first is the larger.\<close>

definition substring :: "string \<Rightarrow> int \<Rightarrow> int \<Rightarrow> string" where
  "substring s a b =
     (let n = int (length s);
          a' = min (max a 0) n;
          b' = min (max b 0) n;
          lo = min a' b';
          hi = max a' b'
      in take (nat (hi - lo)) (drop (nat lo) s))"

definition jsonString :: "string \<Rightarrow> string" where
  "jsonString text = substring text (indexOf text CHR ''('' + 1) (lastIndexOf text CHR '')'')"

text \<open>\<^verbatim>\<open>parseGoogleSheetsJSON\<close>. \<^verbatim>\<open>JSON.parse\<close> is the engine's and is taken as the
  parameter \<open>jp\<close>, \<open>None\<close> when it throws a SyntaxError; the \<^verbatim>\<open>catch\<close> turns every
  failure into the format error.\<close>

definition parseGoogleSheetsJSON :: "(string \<Rightarrow> json option) \<Rightarrow> string \<Rightarrow> exn + json" where
  "parseGoogleSheetsJSON jp text =
     (case jp (jsonString text) of
        None \<Rightarrow> Inl (Error ''Invalid data format from Google Sheets'')
      | Some v \<Rightarrow> Inr v)"

section \<open>The normalizer (the body of fetchData)\<close>

definition getNum :: "json option \<Rightarrow> real" where
  "getNum cell =
     (if truthy cell then (case opt_chain cell ''v'' of Some (JNum n) \<Rightarrow> n | _ \<Rightarrow> 0) else 0)"

text \<open>\<^verbatim>\<open>getStr\<close>, throwing when \<^verbatim>\<open>String\<close> does.\<close>

definition getStr :: "(real \<Rightarrow> string) \<Rightarrow> json option \<Rightarrow> exn + string" where
  "getStr ns cell =
     (if truthy cell then
        (case opt_chain cell ''v'' of
           None \<Rightarrow> Inr []
         | Some JNull \<Rightarrow> Inr []
         | Some v \<Rightarrow> (case js_String ns v of
                       None \<Rightarrow> Inl (TypeError Convert_String)
                     | Some s \<Rightarrow> Inr s))
      else Inr [])"

text \<open>\<^verbatim>\<open>rows[0]?.c || []\<close>\<close>

definition firstRowCells :: "json \<Rightarrow> json" where
  "firstRowCells rows =
     (case opt_chain (js_at rows 0) ''c'' of
        None \<Rightarrow> JArr []
      | Some c \<Rightarrow> if truthy (Some c) then c else JArr [])"

text \<open>\<^verbatim>\<open>x || 1\<close> on a number.\<close>

definition or_one :: "real \<Rightarrow> real" where
  "or_one x = (if x = 0 then 1 else x)"

definition kpis_of :: "json \<Rightarrow> KPIData" where
  "kpis_of rows =
     (let cells = firstRowCells rows in
      \<lparr> totalOpportunities = getNum (js_at cells 0),
        qualifiedConversations = getNum (js_at cells 1),
        convertedClients = getNum (js_at cells 2),
        conversionRate = \<bar>getNum (js_at cells 3)\<bar>,
        totalRevenue = getNum (js_at cells 4),
        activeClientLoad = or_one (getNum (js_at cells 14)) \<rparr>)"

text \<open>The constants of one pass: the summary record and the three arrays the loop
  pushes to.\<close>

record locals =
  l_kpis :: KPIData
  l_revenueTrend :: "RevenueTrend list"
  l_weeklyConversations :: "WeeklyConversation list"
  l_sourceConversions :: "SourceConversion list"

text \<open>\<^verbatim>\<open>typeof x === 'number'\<close>, giving the number.\<close>

fun as_number :: "json option \<Rightarrow> real option" where
  "as_number (Some (JNum n)) = Some n"
| "as_number _ = None"

definition push_revenue :: "string \<Rightarrow> json option \<Rightarrow> locals \<Rightarrow> locals" where
  "push_revenue m rv l =
     (case as_number rv of
        Some r \<Rightarrow> if m \<noteq> [] then l\<lparr>l_revenueTrend := l_revenueTrend l @ [\<lparr>month = m, revenue = r\<rparr>]\<rparr> else l
      | None \<Rightarrow> l)"

definition push_weekly :: "string \<Rightarrow> json option \<Rightarrow> locals \<Rightarrow> locals" where
  "push_weekly w cnt l =
     (case as_number cnt of
        Some n \<Rightarrow> if w \<noteq> [] then l\<lparr>l_weeklyConversations := l_weeklyConversations l @ [\<lparr>week = w, count = n\<rparr>]\<rparr> else l
      | None \<Rightarrow> l)"

definition push_source :: "string \<Rightarrow> json option \<Rightarrow> json \<Rightarrow> locals \<Rightarrow> locals" where
  "push_source s rt cells l =
     (case as_number rt of
        Some r \<Rightarrow>
          if s \<noteq> [] then
            l\<lparr>l_sourceConversions := l_sourceConversions l @
                [\<lparr>source = s,
                  sc_qualified = getNum (js_at cells 10),
                  converted = getNum (js_at cells 11),
                  rate = \<bar>r\<bar>,
                  sc_revenue = getNum (js_at cells 13)\<rparr>]\<rparr>
          else l
      | None \<Rightarrow> l)"

text \<open>The callback of \<^verbatim>\<open>rows.forEach\<close>, on one row.\<close>

definition row_callback :: "(real \<Rightarrow> string) \<Rightarrow> locals \<Rightarrow> json \<Rightarrow> exn + locals" where
  "row_callback ns l row =
     (case opt_chain (Some row) ''c'' of
        None \<Rightarrow> Inr l
      | Some cells \<Rightarrow>
          if \<not> truthy (Some cells) then Inr l
          else
            (case getStr ns (js_at cells 5) of
               Inl e \<Rightarrow> Inl e
             | Inr m \<Rightarrow>
                 (let l1 = push_revenue m (opt_chain (js_at cells 6) ''v'') l in
                  case getStr ns (js_at cells 7) of
                    Inl e \<Rightarrow> Inl e
                  | Inr w \<Rightarrow>
                      (let l2 = push_weekly w (opt_chain (js_at cells 8) ''v'') l1 in
                       case getStr ns (js_at cells 9) of
                         Inl e \<Rightarrow> Inl e
                       | Inr s \<Rightarrow> Inr (push_source s (opt_chain (js_at cells 12) ''v'') cells l2)))))"

fun forEach :: "(real \<Rightarrow> string) \<Rightarrow> locals \<Rightarrow> json list \<Rightarrow> exn + locals" where
  "forEach ns l [] = Inr l"
| "forEach ns l (row # rows) =
     (case row_callback ns l row of
        Inl e \<Rightarrow> Inl e
      | Inr l' \<Rightarrow> forEach ns l' rows)"

text \<open>\<^verbatim>\<open>rawData.table?.rows\<close>, for a \<open>rawData\<close> that is not null.\<close>

definition rows_of :: "json \<Rightarrow> json option" where
  "rows_of rawData = opt_chain (own_prop rawData ''table'') ''rows''"

text \<open>From \<^verbatim>\<open>const rows = rawData.table?.rows\<close> to the end of the loop. Reading
  \<^verbatim>\<open>table\<close> of null throws, and so does \<^verbatim>\<open>rows.forEach\<close> when \<open>rows\<close> is not an
  array.\<close>

definition normalize_table :: "(real \<Rightarrow> string) \<Rightarrow> json \<Rightarrow> exn + locals" where
  "normalize_table ns rawData =
     (case rawData of
        JNull \<Rightarrow> Inl (TypeError Read_table)
      | _ \<Rightarrow>
          (case rows_of rawData of
             None \<Rightarrow> Inl (Error ''No dataset records found'')
           | Some rows \<Rightarrow>
               if \<not> truthy (Some rows) then Inl (Error ''No dataset records found'')
               else if js_length rows = Some (JNum 0) then Inl (Error ''No dataset records found'')
               else
                 (case rows of
                    JArr rs \<Rightarrow>
                      forEach ns
                        \<lparr>l_kpis = kpis_of rows, l_revenueTrend = [],
                          l_weeklyConversations = [], l_sourceConversions = []\<rparr> rs
                  | _ \<Rightarrow> Inl (TypeError Call_forEach))))"

section \<open>One pass of fetchData\<close>

text \<open>What the engine contributes to a pass: \<^verbatim>\<open>JSON.parse\<close> (\<open>None\<close> when it throws),
  the digits \<^verbatim>\<open>String\<close> gives a number, and the message text of the TypeError it
  raises at each place.\<close>

record engine =
  JSON_parse :: "string \<Rightarrow> json option"
  Number_toString :: "real \<Rightarrow> string"
  TypeError_message :: "site \<Rightarrow> string"

text \<open>How \<^verbatim>\<open>await fetch(SHEET_URL)\<close> and \<^verbatim>\<open>await response.text()\<close> end: a rejected
  promise, a response whose \<^verbatim>\<open>ok\<close> is false, or the body text of an ok response.\<close>

datatype fetch_result = Rejected | NotOk | Body string

text \<open>The \<^verbatim>\<open>try\<close> block, up to its \<^verbatim>\<open>setState\<close>.\<close>

definition pipeline :: "engine \<Rightarrow> fetch_result \<Rightarrow> exn + locals" where
  "pipeline E r =
     (case r of
        Rejected \<Rightarrow> Inl (TypeError Fetch)
      | NotOk \<Rightarrow> Inl (Error ''Data sync failed'')
      | Body text \<Rightarrow>
          (case parseGoogleSheetsJSON (JSON_parse E) text of
             Inl e \<Rightarrow> Inl e
           | Inr rawData \<Rightarrow> normalize_table (Number_toString E) rawData))"

text \<open>\<^verbatim>\<open>err instanceof Error ? err.message : 'Unknown sync error'\<close>: every value
  thrown in the block is an \<^verbatim>\<open>Error\<close>.\<close>

definition message :: "engine \<Rightarrow> exn \<Rightarrow> string" where
  "message E e = (case e of Error m \<Rightarrow> m | TypeError s \<Rightarrow> TypeError_message E s)"

text \<open>The three \<^verbatim>\<open>setState\<close> calls, each an update of the state it finds.\<close>

definition fetchData_begin :: "DashboardState \<Rightarrow> DashboardState" where
  "fetchData_begin prev = prev\<lparr>loading := True, error := None\<rparr>"

definition publish_success :: "locals \<Rightarrow> nat \<Rightarrow> DashboardState \<Rightarrow> DashboardState" where
  "publish_success l now prev =
     prev\<lparr>kpis := Some (l_kpis l),
          revenueTrend := l_revenueTrend l,
          weeklyConversations := l_weeklyConversations l,
          sourceConversions := l_sourceConversions l,
          loading := False,
          lastUpdated := Some now\<rparr>"

definition publish_failure :: "string \<Rightarrow> DashboardState \<Rightarrow> DashboardState" where
  "publish_failure msg prev = prev\<lparr>loading := False, error := Some msg\<rparr>"

text \<open>The rest of \<^verbatim>\<open>fetchData\<close> once the fetch has ended, at the instant \<open>now\<close>.\<close>

definition fetchData_end :: "engine \<Rightarrow> fetch_result \<Rightarrow> nat \<Rightarrow> DashboardState \<Rightarrow> DashboardState" where
  "fetchData_end E r now prev =
     (case pipeline E r of
        Inr l \<Rightarrow> publish_success l now prev
      | Inl e \<Rightarrow> publish_failure (message E e) prev)"

section \<open>The component: state, pending passes, triggers\<close>

text \<open>The React state together with the number of \<^verbatim>\<open>fetchData\<close> calls whose fetch
  has not ended yet.\<close>

record component =
  state :: DashboardState
  pending :: nat

definition initial :: DashboardState where
  "initial =
     \<lparr>kpis = None, revenueTrend = [], weeklyConversations = [], sourceConversions = [],
      loading = True, error = None, lastUpdated = None, timeFilter = ''All time''\<rparr>"

text \<open>A call of \<^verbatim>\<open>fetchData\<close> up to its first \<^verbatim>\<open>await\<close>: it sets the flags and
  issues the fetch, whatever the state.\<close>

definition fetchData_call :: "component \<Rightarrow> component" where
  "fetchData_call c = c\<lparr>state := fetchData_begin (state c), pending := Suc (pending c)\<rparr>"

text \<open>The effect: one call on mount, one on every tick of the interval timer.\<close>

definition mount :: component where
  "mount = fetchData_call \<lparr>state = initial, pending = 0\<rparr>"

definition timer_tick :: "component \<Rightarrow> component" where
  "timer_tick c = fetchData_call c"

text \<open>One pending fetch ends.\<close>

definition response_arrives :: "engine \<Rightarrow> fetch_result \<Rightarrow> nat \<Rightarrow> component \<Rightarrow> component" where
  "response_arrives E r now c =
     (if pending c = 0 then c
      else c\<lparr>state := fetchData_end E r now (state c), pending := pending c - 1\<rparr>)"

text \<open>What the component renders: the loading screen (no button), the error screen
  (a retry button) or the dashboard (the refresh button, never disabled). Both buttons
  have \<^verbatim>\<open>onClick={fetchData}\<close>.\<close>

datatype screen = LoadingScreen | ErrorScreen | Dashboard

definition render :: "DashboardState \<Rightarrow> screen" where
  "render st =
     (if loading st \<and> kpis st = None then LoadingScreen
      else if error st \<noteq> None \<and> error st \<noteq> Some [] \<and> kpis st = None then ErrorScreen
      else Dashboard)"

definition click_refresh :: "component \<Rightarrow> component" where
  "click_refresh c =
     (case render (state c) of
        LoadingScreen \<Rightarrow> c
      | ErrorScreen \<Rightarrow> fetchData_call c
      | Dashboard \<Rightarrow> fetchData_call c)"

text \<open>The earlier copy of the component (App.tsx at the root) has the same
  \<^verbatim>\<open>fetchData\<close> prologue, no error screen, and a refresh button with
  \<^verbatim>\<open>disabled={state.loading}\<close>.\<close>

definition click_refresh_legacy :: "component \<Rightarrow> component" where
  "click_refresh_legacy c = (if loading (state c) then c else fetchData_call c)"

section \<open>An engine for closed evaluations\<close>

text \<open>Two functions that agree with the engine where they are used below:
  \<^verbatim>\<open>JSON.parse\<close> on the texts that are a decimal numeral of at most 15 digits without
  sign or leading zero and on the empty text, which it rejects, and
  \<^verbatim>\<open>Number.prototype.toString\<close> on integers of fewer than 22 digits. The message
  texts are those of one engine.\<close>

definition dec_value :: "string \<Rightarrow> nat" where
  "dec_value s = foldl (\<lambda>a c. 10 * a + (of_char c - 48)) 0 s"

definition digits_parse :: "string \<Rightarrow> json option" where
  "digits_parse s =
     (if s \<noteq> [] \<and> length s \<le> 15 \<and> list_all (\<lambda>c. c \<in> set ''0123456789'') s \<and>
         (length s = 1 \<or> hd s \<noteq> CHR ''0'')
      then Some (JNum (real (dec_value s))) else None)"

definition digits_toString :: "real \<Rightarrow> string" where
  "digits_toString x =
     (if x < 0 then CHR ''-'' # dec_key (nat \<lfloor>- x\<rfloor>) else dec_key (nat \<lfloor>x\<rfloor>))"

fun sample_message :: "site \<Rightarrow> string" where
  "sample_message Fetch = ''Failed to fetch''"
| "sample_message Read_table = ''Cannot read properties of null''"
| "sample_message Call_forEach = ''rows.forEach is not a function''"
| "sample_message Convert_String = ''Cannot convert object to primitive value''"

definition sample_engine :: engine where
  "sample_engine =
     \<lparr>JSON_parse = digits_parse, Number_toString = digits_toString,
      TypeError_message = sample_message\<rparr>"

section \<open>Sample payloads\<close>

definition vcell :: "json \<Rightarrow> json" where
  "vcell x = JObj [(''v'', x)]"

definition payload :: "json list \<Rightarrow> json" where
  "payload rows = JObj [(''table'', JObj [(''rows'', JArr rows)])]"

definition crow :: "json list \<Rightarrow> json" where
  "crow cells = JObj [(''c'', JArr cells)]"

text \<open>The hand-built row of the specification's round trip, and the same row with the
  label and the amount at the offsets the loop reads (5 and 6).\<close>

definition cells_C2 :: "json list" where
  "cells_C2 =
     [vcell (JNum 10), vcell (JNum 5), vcell (JNum 2), vcell (JNum 0.4), vcell (JNum 1000),
      JNull, vcell (JStr ''Jan''), vcell (JNum 1000)]"

definition table_C2 :: json where
  "table_C2 = payload [crow cells_C2]"

definition table_C2_shifted :: json where
  "table_C2_shifted =
     payload [crow [vcell (JNum 10), vcell (JNum 5), vcell (JNum 2), vcell (JNum 0.4),
       vcell (JNum 1000), vcell (JStr ''Jan''), vcell (JNum 1000)]]"

definition kpis_C2 :: KPIData where
  "kpis_C2 =
     \<lparr>totalOpportunities = 10, qualifiedConversations = 5, convertedClients = 2,
      conversionRate = 0.4, totalRevenue = 1000, activeClientLoad = 1\<rparr>"

definition locals_C2 :: locals where
  "locals_C2 =
     \<lparr>l_kpis = kpis_C2, l_revenueTrend = [], l_weeklyConversations = [],
      l_sourceConversions = []\<rparr>"

text \<open>The component once the pass started on mount has succeeded with that record, at
  instant 0.\<close>

definition after_success :: component where
  "after_success = \<lparr>state = publish_success locals_C2 0 (state mount), pending = 0\<rparr>"

text \<open>Rows for the label columns: empty labels beside valid numbers; labels that are
  numbers and a boolean; a label whose value is an object owning \<^verbatim>\<open>toString\<close>.\<close>

definition cells_empty_labels :: "json list" where
  "cells_empty_labels =
     [JNull, JNull, JNull, JNull, JNull,
      vcell (JStr []), vcell (JNum 1000), vcell (JStr []), vcell (JNum 3)]"

definition cells_number_labels :: "json list" where
  "cells_number_labels =
     [JNull, JNull, JNull, vcell (JNum (- 0.4)), JNull,
      vcell (JNum 2024), vcell (JNum 1000), vcell (JBool True), vcell (JNum 3),
      vcell (JNum 7), vcell (JNum 4), vcell (JNum 2), vcell (JNum (- 0.5)), vcell (JNum 900)]"

definition cells_toString_label :: "json list" where
  "cells_toString_label =
     [JNull, JNull, JNull, JNull, JNull,
      vcell (JObj [(''toString'', JNum 5)]), vcell (JNum 1000)]"

definition locals_number_labels :: locals where
  "locals_number_labels =
     locals_C2\<lparr>l_revenueTrend := [\<lparr>month = ''2024'', revenue = 1000\<rparr>],
               l_weeklyConversations := [\<lparr>week = ''true'', count = 3\<rparr>],
               l_sourceConversions :=
                 [\<lparr>source = ''7'', sc_qualified = 4, converted = 2, rate = 0.5,
                   sc_revenue = 900\<rparr>]\<rparr>"

text \<open>A value \<^verbatim>\<open>String\<close> converts without throwing: no object owning a property
  named \<^verbatim>\<open>toString\<close>, and no array that holds one.\<close>

fun stringable :: "json \<Rightarrow> bool" where
  "stringable (JArr xs) = list_all stringable xs"
| "stringable (JObj kvs) = (map_of kvs ''toString'' = None)"
| "stringable _ = True"

text \<open>A label cell whose value converts, and a row whose three label cells (offsets 5,
  7 and 9) do; a row the loop skips has no label cell.\<close>

definition label_ok :: "json option \<Rightarrow> bool" where
  "label_ok cell = (case opt_chain cell ''v'' of None \<Rightarrow> True | Some v \<Rightarrow> stringable v)"

definition row_ok :: "json \<Rightarrow> bool" where
  "row_ok r =
     (case opt_chain (Some r) ''c'' of
        None \<Rightarrow> True
      | Some cells \<Rightarrow>
          if truthy (Some cells)
          then label_ok (js_at cells 5) \<and> label_ok (js_at cells 7) \<and> label_ok (js_at cells 9)
          else True)"

section \<open>The rules of the specification for the numeric fields\<close>

text \<open>The coercion rule as the specification words it: a cell counts as numeric only
  if the type of its raw value is number; a missing or non-numeric cell resolves to 0.\<close>

definition spec_number :: "json option \<Rightarrow> real" where
  "spec_number cell = (case opt_chain cell ''v'' of Some (JNum n) \<Rightarrow> n | _ \<Rightarrow> 0)"

text \<open>The entries one row contributes as the specification words them: an entry if
  the label is non-empty and the numeric column is strictly numeric, with the number
  of that column as it stands (the rate in absolute value) and the other numbers
  coerced by the rule above.\<close>

definition spec_revenue_entries :: "(real \<Rightarrow> string) \<Rightarrow> json \<Rightarrow> RevenueTrend list" where
  "spec_revenue_entries ns r =
     (case opt_chain (Some r) ''c'' of
        None \<Rightarrow> []
      | Some cells \<Rightarrow>
          if truthy (Some cells) then
            (case getStr ns (js_at cells 5) of
               Inl e \<Rightarrow> []
             | Inr m \<Rightarrow>
                 (case opt_chain (js_at cells 6) ''v'' of
                    Some (JNum x) \<Rightarrow> if m = [] then [] else [\<lparr>month = m, revenue = x\<rparr>]
                  | _ \<Rightarrow> []))
          else [])"

definition spec_activity_entries :: "(real \<Rightarrow> string) \<Rightarrow> json \<Rightarrow> WeeklyConversation list" where
  "spec_activity_entries ns r =
     (case opt_chain (Some r) ''c'' of
        None \<Rightarrow> []
      | Some cells \<Rightarrow>
          if truthy (Some cells) then
            (case getStr ns (js_at cells 7) of
               Inl e \<Rightarrow> []
             | Inr w \<Rightarrow>
                 (case opt_chain (js_at cells 8) ''v'' of
                    Some (JNum x) \<Rightarrow> if w = [] then [] else [\<lparr>week = w, count = x\<rparr>]
                  | _ \<Rightarrow> []))
          else [])"

definition spec_source_entries :: "(real \<Rightarrow> string) \<Rightarrow> json \<Rightarrow> SourceConversion list" where
  "spec_source_entries ns r =
     (case opt_chain (Some r) ''c'' of
        None \<Rightarrow> []
      | Some cells \<Rightarrow>
          if truthy (Some cells) then
            (case getStr ns (js_at cells 9) of
               Inl e \<Rightarrow> []
             | Inr s \<Rightarrow>
                 (case opt_chain (js_at cells 12) ''v'' of
                    Some (JNum x) \<Rightarrow>
                      if s = [] then []
                      else [\<lparr>source = s, sc_qualified = spec_number (js_at cells 10),
                             converted = spec_number (js_at cells 11), rate = \<bar>x\<bar>,
                             sc_revenue = spec_number (js_at cells 13)\<rparr>]
                  | _ \<Rightarrow> []))
          else [])"

text \<open>A table whose cells mix numbers with strings that look like numbers, in a row
  object that owns \<^verbatim>\<open>toString\<close> itself, and a table with a label that is an array
  holding an object that owns \<^verbatim>\<open>toString\<close>.\<close>

definition cells_mixed :: "json list" where
  "cells_mixed =
     [vcell (JStr ''12''), vcell (JNum 5), JNull, vcell (JNum (- 0.4)), vcell (JNum 1000),
      vcell (JStr ''Jan''), vcell (JStr ''1000''), vcell (JStr ''W1''), vcell (JNum 3),
      vcell (JStr ''LinkedIn''), vcell (JStr ''4''), vcell (JNum 2), vcell (JNum (- 0.5)),
      vcell (JBool True)]"

definition rows_mixed :: "json list" where
  "rows_mixed =
     [JObj [(''c'', JArr cells_mixed), (''toString'', JNum 1)],
      crow [JNull, JNull, JNull, JNull, JNull, vcell (JStr ''Feb''), vcell (JNum 2000)]]"

definition locals_mixed :: locals where
  "locals_mixed =
     \<lparr>l_kpis =
        \<lparr>totalOpportunities = 0, qualifiedConversations = 5, convertedClients = 0,
         conversionRate = 0.4, totalRevenue = 1000, activeClientLoad = 1\<rparr>,
      l_revenueTrend = [\<lparr>month = ''Feb'', revenue = 2000\<rparr>],
      l_weeklyConversations = [\<lparr>week = ''W1'', count = 3\<rparr>],
      l_sourceConversions =
        [\<lparr>source = ''LinkedIn'', sc_qualified = 0, converted = 2, rate = 0.5,
          sc_revenue = 0\<rparr>]\<rparr>"

definition rows_nested_toString :: "json list" where
  "rows_nested_toString =
     [crow [JNull, JNull, JNull, JNull, JNull, JNull, JNull, JNull, JNull,
        vcell (JArr [JNum 1, JObj [(''toString'', JNull)]])]]"

section \<open>Evaluation and the shape of a pass\<close>

lemmas norm_eval =
  payload_def crow_def vcell_def normalize_table_def rows_of_def kpis_of_def
  firstRowCells_def getNum_def or_one_def row_callback_def getStr_def push_revenue_def
  push_weekly_def push_source_def digit_char_def dec_key.simps

lemma push_frames [simp]:
  "l_kpis (push_revenue m rv l) = l_kpis l"
  "l_kpis (push_weekly w c l) = l_kpis l"
  "l_kpis (push_source s rt cells l) = l_kpis l"
  "l_revenueTrend (push_weekly w c l) = l_revenueTrend l"
  "l_revenueTrend (push_source s rt cells l) = l_revenueTrend l"
  "l_weeklyConversations (push_revenue m rv l) = l_weeklyConversations l"
  "l_weeklyConversations (push_source s rt cells l) = l_weeklyConversations l"
  "l_sourceConversions (push_revenue m rv l) = l_sourceConversions l"
  "l_sourceConversions (push_weekly w c l) = l_sourceConversions l"
  by (auto simp: push_revenue_def push_weekly_def push_source_def split: option.splits)

text \<open>Only \<^verbatim>\<open>String\<close> can throw inside the loop.\<close>

lemma getStr_error: "getStr ns cell = Inl e \<Longrightarrow> e = TypeError Convert_String"
  by (auto simp: getStr_def split: if_splits option.splits json.splits)

lemma row_callback_error: "row_callback ns l r = Inl e \<Longrightarrow> e = TypeError Convert_String"
  by (auto simp: row_callback_def Let_def split: if_splits option.splits sum.splits
      dest: getStr_error)

lemma forEach_error: "forEach ns l rs = Inl e \<Longrightarrow> e = TypeError Convert_String"
  by (induction rs arbitrary: l) (auto split: sum.splits dest: row_callback_error)

text \<open>A row whose \<^verbatim>\<open>c\<close> is truthy runs the three extractions in turn; any other row
  is skipped.\<close>

lemma row_callback_Inr:
  assumes "opt_chain (Some r) ''c'' = Some cells" and "truthy (Some cells)"
    and "row_callback ns l r = Inr l'"
  obtains m w s where
    "getStr ns (js_at cells 5) = Inr m" "getStr ns (js_at cells 7) = Inr w"
    "getStr ns (js_at cells 9) = Inr s"
    "l' = push_source s (opt_chain (js_at cells 12) ''v'') cells
           (push_weekly w (opt_chain (js_at cells 8) ''v'')
             (push_revenue m (opt_chain (js_at cells 6) ''v'') l))"
  using assms by (auto simp: row_callback_def Let_def split: sum.splits)

lemma row_callback_skip:
  assumes "opt_chain (Some r) ''c'' = Some cells" and "\<not> truthy (Some cells)"
  shows "row_callback ns l r = Inr l"
  using assms by (simp add: row_callback_def)





lemma normalize_table_error:
  assumes "normalize_table ns rawData = Inl e"
  shows "e = EmptyDatasetError \<or> (\<exists>s. e = TypeError s)"
  using assms
  by (cases rawData; cases "rows_of rawData")
     (auto simp: normalize_table_def EmptyDatasetError_def split: if_splits json.splits
        dest: forEach_error)

section \<open>The failures of a pass\<close>

lemma pipeline_NotOk: "pipeline E NotOk = Inl TransportError"
  by (simp add: pipeline_def TransportError_def)

lemma pipeline_malformed:
  "JSON_parse E (jsonString text) = None \<Longrightarrow> pipeline E (Body text) = Inl FormatError"
  by (simp add: pipeline_def parseGoogleSheetsJSON_def FormatError_def)

lemma pipeline_failure_kinds:
  assumes "pipeline E r = Inl e"
  shows "e = TransportError \<or> e = FormatError \<or> e = EmptyDatasetError \<or>
         (\<exists>s. e = TypeError s)"
proof (cases r)
  case (Body body)
  with assms show ?thesis
    by (auto simp: pipeline_def parseGoogleSheetsJSON_def FormatError_def
        split: option.splits dest: normalize_table_error)
qed (use assms in \<open>auto simp: pipeline_def TransportError_def\<close>)

section \<open>The manual trigger\<close>

lemma response_arrives_success:
  "pipeline E r = Inr locals_C2 \<Longrightarrow> response_arrives E r 0 mount = after_success"
  by (simp add: response_arrives_def mount_def fetchData_call_def fetchData_end_def
      after_success_def)

lemma click_refresh_with_kpis:
  "kpis (state c) \<noteq> None \<Longrightarrow> click_refresh c = fetchData_call c"
  by (auto simp: click_refresh_def render_def)

lemma click_refresh_on_loading_screen:
  "loading (state c) \<Longrightarrow> kpis (state c) = None \<Longrightarrow> click_refresh c = c"
  by (simp add: click_refresh_def render_def)

lemma click_refresh_legacy_loading:
  "loading (state c) \<Longrightarrow> click_refresh_legacy c = c"
  by (simp add: click_refresh_legacy_def)

text \<open>
  C1: a manual refresh while a pass is in flight (the loading flag set) is meant to be
  a no-op, so that one pass is in flight at a time. In the current component the
  refresh button of the dashboard is never disabled and \<^verbatim>\<open>fetchData\<close> tests nothing:
  once a summary record is on display, the first click sets the loading flag and leaves
  one pass pending, and a second click before the response leaves two. The earlier
  copy, whose button is disabled while loading, ignores that second click.
\<close>

theorem second_click_starts_second_fetch:
  "loading (state (click_refresh after_success)) = True \<and>
   pending (click_refresh after_success) = 1 \<and>
   pending (click_refresh (click_refresh after_success)) = 2 \<and>
   click_refresh_legacy (click_refresh after_success) = click_refresh after_success"
  by (simp add: click_refresh_def click_refresh_legacy_def render_def after_success_def
      publish_success_def fetchData_call_def fetchData_begin_def mount_def initial_def
      locals_C2_def)

section \<open>The round trip\<close>

text \<open>
  C2, as amended: normalizing the single-row table of the round trip yields the summary
  record with 10, 5, 2, 0.4, 1000 and an active client load of 1, and an empty revenue
  series, since the period label is read at offset 5 (null in that row) and the amount
  at offset 6 (the text Jan); the same row with the label at offset 5 and the amount at
  offset 6 yields exactly the one point Jan, 1000.
\<close>

theorem round_trip_table:
  "normalize_table ns table_C2 = Inr locals_C2 \<and>
   normalize_table ns table_C2_shifted =
     Inr (locals_C2\<lparr>l_revenueTrend := [\<lparr>month = ''Jan'', revenue = 1000\<rparr>]\<rparr>)"
  by (simp add: table_C2_def cells_C2_def table_C2_shifted_def locals_C2_def kpis_C2_def
      norm_eval)

text \<open>C2 as stated fails: the revenue series of that table is empty, not the one point
  Jan, 1000.\<close>

theorem round_trip_table_no_revenue_point:
  "normalize_table digits_toString table_C2 = Inr locals_C2 \<and>
   l_revenueTrend locals_C2 = [] \<and>
   l_revenueTrend locals_C2 \<noteq> [\<lparr>month = ''Jan'', revenue = 1000\<rparr>]"
  by (simp add: table_C2_def cells_C2_def locals_C2_def kpis_C2_def norm_eval)

section \<open>No rows\<close>

text \<open>
  C6: for every table with zero rows, or with no rows array (absent or null), the
  normalizer fails with the empty-dataset error and produces no summary record and no
  series.
\<close>

theorem no_rows_is_empty_dataset:
  assumes "rawData \<noteq> JNull"
    and "rows_of rawData = None \<or> rows_of rawData = Some JNull \<or>
         rows_of rawData = Some (JArr [])"
  shows "normalize_table ns rawData = Inl EmptyDatasetError"
  using assms by (auto simp: normalize_table_def EmptyDatasetError_def split: json.splits)

theorem no_rows_is_empty_dataset_witness:
  "payload [] \<noteq> JNull \<and> rows_of (payload []) = Some (JArr []) \<and>
   normalize_table digits_toString (payload []) = Inl (Error ''No dataset records found'')"
  using no_rows_is_empty_dataset [of "payload []" digits_toString]
  by (simp add: payload_def rows_of_def EmptyDatasetError_def)

section \<open>A failed pass\<close>

text \<open>
  C8: when a pass fails, whatever was thrown (the transport error of a response that
  is not ok, the rejection of the fetch itself, the format error, the empty-dataset
  error), the published state has loading false and the message of the thrown error,
  and the summary record, the three series and the date of the last update are those
  of the state it updates. The message is non-empty for the three errors the component
  throws itself, and for an error of the engine when the engine's text is.
\<close>

theorem failed_pass_keeps_data:
  assumes "pipeline E r = Inl e"
  shows "loading (fetchData_end E r now prev) = False \<and>
     error (fetchData_end E r now prev) = Some (message E e) \<and>
     kpis (fetchData_end E r now prev) = kpis prev \<and>
     revenueTrend (fetchData_end E r now prev) = revenueTrend prev \<and>
     weeklyConversations (fetchData_end E r now prev) = weeklyConversations prev \<and>
     sourceConversions (fetchData_end E r now prev) = sourceConversions prev \<and>
     lastUpdated (fetchData_end E r now prev) = lastUpdated prev \<and>
     timeFilter (fetchData_end E r now prev) = timeFilter prev \<and>
     (e = TransportError \<or> e = FormatError \<or> e = EmptyDatasetError \<or>
      (\<exists>s. e = TypeError s)) \<and>
     (e = TransportError \<or> e = FormatError \<or> e = EmptyDatasetError \<longrightarrow>
        message E e \<noteq> []) \<and>
     ((\<forall>s. TypeError_message E s \<noteq> []) \<longrightarrow> message E e \<noteq> [])"
proof -
  have k: "e = TransportError \<or> e = FormatError \<or> e = EmptyDatasetError \<or>
      (\<exists>s. e = TypeError s)"
    using assms by (rule pipeline_failure_kinds)
  have m: "message E e \<noteq> []" if "e = TransportError \<or> e = FormatError \<or> e = EmptyDatasetError"
    using that by (auto simp: message_def TransportError_def FormatError_def EmptyDatasetError_def)
  have t: "message E e \<noteq> []" if "\<forall>s. TypeError_message E s \<noteq> []"
    using k that m by (auto simp: message_def)
  from assms k m t show ?thesis
    by (simp add: fetchData_end_def publish_failure_def)
qed

theorem failed_pass_keeps_data_witness:
  "pipeline sample_engine Rejected = Inl (TypeError Fetch) \<and>
   fetchData_end sample_engine Rejected 7 (fetchData_begin (state after_success)) =
     (state after_success)\<lparr>error := Some ''Failed to fetch''\<rparr> \<and>
   pipeline sample_engine NotOk = Inl TransportError \<and>
   fetchData_end sample_engine NotOk 7 (fetchData_begin (state after_success)) =
     (state after_success)\<lparr>error := Some ''Data sync failed''\<rparr> \<and>
   pipeline sample_engine (Body ''no envelope'') = Inl FormatError \<and>
   fetchData_end sample_engine (Body ''no envelope'') 7 (fetchData_begin (state after_success)) =
     (state after_success)\<lparr>error := Some ''Invalid data format from Google Sheets''\<rparr> \<and>
   pipeline sample_engine (Body ''f(5)'') = Inl EmptyDatasetError \<and>
   fetchData_end sample_engine (Body ''f(5)'') 7 (fetchData_begin (state after_success)) =
     (state after_success)\<lparr>error := Some ''No dataset records found''\<rparr> \<and>
   kpis (state after_success) = Some kpis_C2 \<and>
   lastUpdated (state after_success) = Some 0"
  using failed_pass_keeps_data [of sample_engine Rejected "TypeError Fetch" 7 "fetchData_begin (state after_success)"]
    failed_pass_keeps_data [of sample_engine NotOk TransportError 7 "fetchData_begin (state after_success)"]
    failed_pass_keeps_data [of sample_engine "Body ''no envelope''" FormatError 7
      "fetchData_begin (state after_success)"]
    failed_pass_keeps_data [of sample_engine "Body ''f(5)''" EmptyDatasetError 7
      "fetchData_begin (state after_success)"]
  by (simp add: pipeline_def parseGoogleSheetsJSON_def jsonString_def substring_def
      sample_engine_def digits_parse_def dec_value_def normalize_table_def rows_of_def
      fetchData_end_def publish_failure_def message_def
      TransportError_def FormatError_def EmptyDatasetError_def fetchData_begin_def
      after_success_def publish_success_def mount_def fetchData_call_def initial_def
      locals_C2_def)

section \<open>The envelope\<close>

lemma indexOf_absent: "c \<notin> set s \<Longrightarrow> indexOf s c = - 1"
  by (induction s) (auto simp: Let_def)

lemma indexOf_first: "c \<notin> set pre \<Longrightarrow> indexOf (pre @ c # rest) c = int (length pre)"
  by (induction pre) (auto simp: Let_def)

lemma lastIndexOf_absent: "c \<notin> set s \<Longrightarrow> lastIndexOf s c = - 1"
  by (induction s) (auto simp: Let_def)

lemma lastIndexOf_last: "c \<notin> set suf \<Longrightarrow> lastIndexOf (pre @ c # suf) c = int (length pre)"
  by (induction pre) (auto simp: Let_def lastIndexOf_absent)

text \<open>When the first opening parenthesis comes before the last closing one, the
  extracted text is what lies strictly between them.\<close>

lemma jsonString_between:
  assumes "CHR ''('' \<notin> set pre" and "CHR '')'' \<notin> set suf"
  shows "jsonString (pre @ CHR ''('' # mid @ CHR '')'' # suf) = mid"
proof -
  have i: "indexOf (pre @ CHR ''('' # mid @ CHR '')'' # suf) CHR ''('' = int (length pre)"
    using assms(1) by (rule indexOf_first)
  have "lastIndexOf ((pre @ CHR ''('' # mid) @ CHR '')'' # suf) CHR '')'' =
          int (length (pre @ CHR ''('' # mid))"
    using assms(2) by (rule lastIndexOf_last)
  then have j: "lastIndexOf (pre @ CHR ''('' # mid @ CHR '')'' # suf) CHR '')'' =
                  int (length pre) + 1 + int (length mid)"
    by simp
  show ?thesis
    unfolding jsonString_def substring_def i j
    by (simp add: Let_def min_def max_def nat_add_distrib)
qed

lemma jsonString_no_parentheses:
  assumes "CHR ''('' \<notin> set txt" and "CHR '')'' \<notin> set txt"
  shows "jsonString txt = []"
  by (simp add: jsonString_def substring_def indexOf_absent[OF assms(1)]
      lastIndexOf_absent[OF assms(2)])

text \<open>
  C3, as amended: the parser JSON-parses the text between the first opening and the
  last closing parenthesis when the first comes before the last; it fails with the
  format error whenever the text it extracts is not valid JSON, and so on every input
  with no parenthesis at all, for which the extracted text is empty (which
  \<^verbatim>\<open>JSON.parse\<close> rejects).
\<close>

theorem parse_between_parentheses:
  "(CHR ''('' \<notin> set pre \<and> CHR '')'' \<notin> set suf \<longrightarrow>
      parseGoogleSheetsJSON jp (pre @ CHR ''('' # mid @ CHR '')'' # suf) =
        (case jp mid of None \<Rightarrow> Inl FormatError | Some v \<Rightarrow> Inr v)) \<and>
   (jp (jsonString txt) = None \<longrightarrow> parseGoogleSheetsJSON jp txt = Inl FormatError) \<and>
   (CHR ''('' \<notin> set txt \<and> CHR '')'' \<notin> set txt \<and> jp [] = None \<longrightarrow>
      parseGoogleSheetsJSON jp txt = Inl FormatError)"
  by (auto simp: parseGoogleSheetsJSON_def FormatError_def jsonString_between
      jsonString_no_parentheses split: option.splits)

theorem parse_between_parentheses_witness:
  "CHR ''('' \<notin> set ''/*O_o*/ f'' \<and> CHR '')'' \<notin> set '';'' \<and>
   parseGoogleSheetsJSON digits_parse ''/*O_o*/ f(42);'' = Inr (JNum 42) \<and>
   CHR ''('' \<notin> set ''no envelope'' \<and> CHR '')'' \<notin> set ''no envelope'' \<and>
   digits_parse [] = None \<and> digits_parse (jsonString ''no envelope'') = None \<and>
   parseGoogleSheetsJSON digits_parse ''no envelope'' = Inl FormatError"
  using parse_between_parentheses [of "''/*O_o*/ f''" "'';''" digits_parse "''42''"
      "''no envelope''"]
  by (simp add: digits_parse_def dec_value_def jsonString_def substring_def)

text \<open>C3 as stated fails: a text with a closing parenthesis and no opening one has no
  matching pair, and is parsed from its start up to that parenthesis.\<close>

theorem parse_unmatched_closing:
  "CHR ''('' \<notin> set ''5)'' \<and> parseGoogleSheetsJSON digits_parse ''5)'' = Inr (JNum 5)"
  by (simp add: parseGoogleSheetsJSON_def jsonString_def substring_def digits_parse_def
      dec_value_def)

section \<open>Numeric coercion\<close>

lemma getNum_spec: "getNum cell = spec_number cell"
  by (cases "(cell, ''v'')" rule: opt_chain.cases)
     (auto simp: getNum_def spec_number_def split: option.splits json.splits)

text \<open>\<^verbatim>\<open>String\<close> throws exactly on the values that are not \<open>stringable\<close>, and
  the callback exactly on the rows that are not \<open>row_ok\<close>.\<close>

lemma those_map_None:
  "those (map f xs) = None \<longleftrightarrow> (\<exists>x\<in>set xs. f x = None)"
  by (induction xs) (auto split: option.splits)

lemma js_String_stringable: "js_String ns v \<noteq> None \<longleftrightarrow> stringable v"
proof (induction ns v rule: js_String.induct)
  case (5 ns xs)
  have el: "(case x of JNull \<Rightarrow> Some [] | _ \<Rightarrow> js_String ns x) = None \<longleftrightarrow> \<not> stringable x"
    if "x \<in> set xs" for x
    using "5.IH"[OF that] by (cases x) auto
  show ?case by (auto simp: those_map_None list_all_iff el)
qed auto

lemma getStr_label_ok: "label_ok cell \<Longrightarrow> \<exists>s. getStr ns cell = Inr s"
proof (cases "opt_chain cell ''v''")
  case None
  then show ?thesis by (simp add: getStr_def)
next
  case (Some v)
  assume "label_ok cell"
  with Some have "stringable v" by (simp add: label_ok_def)
  then obtain s where "js_String ns v = Some s" using js_String_stringable[of ns v] by auto
  with Some show ?thesis by (auto simp: getStr_def split: json.splits)
qed

lemma getStr_not_label_ok:
  assumes "\<not> label_ok cell"
  shows "getStr ns cell = Inl (TypeError Convert_String)"
proof -
  from assms obtain v where v: "opt_chain cell ''v'' = Some v" and n: "\<not> stringable v"
    by (auto simp: label_ok_def split: option.splits)
  have t: "truthy cell"
    using v by (cases "(cell, ''v'')" rule: opt_chain.cases; cases cell rule: truthy.cases) auto
  from n have "js_String ns v = None" using js_String_stringable[of ns v] by auto
  with v t n show ?thesis by (cases v) (simp_all add: getStr_def del: js_String.simps)
qed

lemma row_callback_ok:
  assumes "row_ok r"
  shows "\<exists>l'. row_callback ns l r = Inr l'"
proof (cases "opt_chain (Some r) ''c''")
  case None
  then show ?thesis by (simp add: row_callback_def)
next
  case (Some cells)
  show ?thesis
  proof (cases "truthy (Some cells)")
    case True
    with assms Some have "label_ok (js_at cells 5)" "label_ok (js_at cells 7)"
      "label_ok (js_at cells 9)" by (simp_all add: row_ok_def)
    then obtain m w s where "getStr ns (js_at cells 5) = Inr m"
      "getStr ns (js_at cells 7) = Inr w" "getStr ns (js_at cells 9) = Inr s"
      using getStr_label_ok by metis
    with Some True show ?thesis by (simp add: row_callback_def Let_def)
  next
    case False
    with Some show ?thesis by (simp add: row_callback_def)
  qed
qed

lemma row_callback_not_ok:
  assumes "\<not> row_ok r"
  shows "row_callback ns l r = Inl (TypeError Convert_String)"
proof (cases "row_callback ns l r")
  case (Inl e)
  then show ?thesis by (simp add: row_callback_error)
next
  case (Inr l')
  from assms obtain cells where c: "opt_chain (Some r) ''c'' = Some cells"
    and t: "truthy (Some cells)"
    and n: "\<not> label_ok (js_at cells 5) \<or> \<not> label_ok (js_at cells 7) \<or> \<not> label_ok (js_at cells 9)"
    by (auto simp: row_ok_def split: option.splits if_splits)
  from c t Inr obtain m w s where "getStr ns (js_at cells 5) = Inr m"
    "getStr ns (js_at cells 7) = Inr w" "getStr ns (js_at cells 9) = Inr s"
    by (rule row_callback_Inr)
  with n show ?thesis by (auto dest: getStr_not_label_ok[where ns = ns])
qed

text \<open>What one run of the callback appends is what the rules give for that row.\<close>

lemma row_callback_entries:
  assumes "row_callback ns l r = Inr l'"
  shows "l_kpis l' = l_kpis l \<and>
         l_revenueTrend l' = l_revenueTrend l @ spec_revenue_entries ns r \<and>
         l_weeklyConversations l' = l_weeklyConversations l @ spec_activity_entries ns r \<and>
         l_sourceConversions l' = l_sourceConversions l @ spec_source_entries ns r"
proof (cases "opt_chain (Some r) ''c''")
  case None
  with assms show ?thesis
    by (simp add: row_callback_def spec_revenue_entries_def spec_activity_entries_def
        spec_source_entries_def)
next
  case (Some cells)
  show ?thesis
  proof (cases "truthy (Some cells)")
    case False
    with Some assms show ?thesis
      by (simp add: row_callback_def spec_revenue_entries_def spec_activity_entries_def
          spec_source_entries_def)
  next
    case True
    from Some True assms obtain m w s where g: "getStr ns (js_at cells 5) = Inr m"
      "getStr ns (js_at cells 7) = Inr w" "getStr ns (js_at cells 9) = Inr s"
      and l': "l' = push_source s (opt_chain (js_at cells 12) ''v'') cells
           (push_weekly w (opt_chain (js_at cells 8) ''v'')
             (push_revenue m (opt_chain (js_at cells 6) ''v'') l))"
      by (rule row_callback_Inr)
    have 1: "l_revenueTrend l' = l_revenueTrend l @ spec_revenue_entries ns r"
      unfolding l' using Some True g(1)
      by (cases "opt_chain (js_at cells 6) ''v''" rule: as_number.cases)
         (simp_all add: spec_revenue_entries_def push_revenue_def)
    have 2: "l_weeklyConversations l' = l_weeklyConversations l @ spec_activity_entries ns r"
      unfolding l' using Some True g(2)
      by (cases "opt_chain (js_at cells 8) ''v''" rule: as_number.cases)
         (simp_all add: spec_activity_entries_def push_weekly_def)
    have 3: "l_sourceConversions l' = l_sourceConversions l @ spec_source_entries ns r"
      unfolding l' using Some True g(3)
      by (cases "opt_chain (js_at cells 12) ''v''" rule: as_number.cases)
         (simp_all add: spec_source_entries_def push_source_def getNum_spec)
    have "l_kpis l' = l_kpis l" unfolding l' by simp
    with 1 2 3 show ?thesis by simp
  qed
qed

lemma forEach_entries:
  "forEach ns l rs = Inr l' \<Longrightarrow>
     l_kpis l' = l_kpis l \<and>
     l_revenueTrend l' = l_revenueTrend l @ concat (map (spec_revenue_entries ns) rs) \<and>
     l_weeklyConversations l' =
       l_weeklyConversations l @ concat (map (spec_activity_entries ns) rs) \<and>
     l_sourceConversions l' = l_sourceConversions l @ concat (map (spec_source_entries ns) rs)"
proof (induction rs arbitrary: l)
  case Nil
  then show ?case by simp
next
  case (Cons r rs)
  from Cons.prems obtain l1 where
    r: "row_callback ns l r = Inr l1" and f: "forEach ns l1 rs = Inr l'"
    by (auto split: sum.splits)
  from row_callback_entries[OF r] Cons.IH[OF f] show ?case by simp
qed

lemma forEach_ok: "list_all row_ok rs \<Longrightarrow> \<exists>l'. forEach ns l rs = Inr l'"
proof (induction rs arbitrary: l)
  case Nil
  then show ?case by simp
next
  case (Cons r rs)
  then obtain l1 where "row_callback ns l r = Inr l1"
    using row_callback_ok[of r ns l] by auto
  with Cons show ?case by auto
qed

lemma forEach_not_ok:
  "\<not> list_all row_ok rs \<Longrightarrow> forEach ns l rs = Inl (TypeError Convert_String)"
proof (induction rs arbitrary: l)
  case Nil
  then show ?case by simp
next
  case (Cons r rs)
  show ?case
  proof (cases "row_callback ns l r")
    case (Inl e)
    then show ?thesis by (simp add: row_callback_error)
  next
    case (Inr l1)
    then have "row_ok r" using row_callback_not_ok[of r ns l] by auto
    with Cons.prems have "\<not> list_all row_ok rs" by simp
    from Cons.IH[OF this] Inr show ?thesis by simp
  qed
qed

text \<open>
  C4, as amended: for every table with at least one row, the normalizer fails exactly
  when String throws on the value of a label cell (offsets 5, 7, 9 of a row), which it
  does only for an object owning a property named toString or an array holding one;
  absent, null and non-numeric cells never make it fail. When it does not fail, each
  numeric field is taken from its cell only if the raw value's type is number, never
  via string-to-number parsing: a summary field and the qualified, converted and
  revenue fields of a breakdown entry otherwise resolve to 0 (the active client load
  then to 1), and a non-numeric amount, count or rate leaves the row without that entry.
\<close>

theorem normalize_table_strict_numbers:
  assumes "rows_of rawData = Some (JArr (r # rs))"
  shows "(list_all row_ok (r # rs) \<longrightarrow>
           (\<exists>l. normalize_table ns rawData = Inr l \<and>
              l_kpis l =
                \<lparr>totalOpportunities = spec_number (js_at (firstRowCells (JArr (r # rs))) 0),
                 qualifiedConversations = spec_number (js_at (firstRowCells (JArr (r # rs))) 1),
                 convertedClients = spec_number (js_at (firstRowCells (JArr (r # rs))) 2),
                 conversionRate = \<bar>spec_number (js_at (firstRowCells (JArr (r # rs))) 3)\<bar>,
                 totalRevenue = spec_number (js_at (firstRowCells (JArr (r # rs))) 4),
                 activeClientLoad =
                   (if spec_number (js_at (firstRowCells (JArr (r # rs))) 14) = 0 then 1
                    else spec_number (js_at (firstRowCells (JArr (r # rs))) 14))\<rparr> \<and>
              l_revenueTrend l = concat (map (spec_revenue_entries ns) (r # rs)) \<and>
              l_weeklyConversations l = concat (map (spec_activity_entries ns) (r # rs)) \<and>
              l_sourceConversions l = concat (map (spec_source_entries ns) (r # rs)))) \<and>
         (\<not> list_all row_ok (r # rs) \<longrightarrow>
            normalize_table ns rawData = Inl (TypeError Convert_String))"
proof -
  have nn: "rawData \<noteq> JNull" using assms by (auto simp: rows_of_def)
  have n: "normalize_table ns rawData =
      forEach ns \<lparr>l_kpis = kpis_of (JArr (r # rs)), l_revenueTrend = [],
        l_weeklyConversations = [], l_sourceConversions = []\<rparr> (r # rs)"
    using nn assms unfolding normalize_table_def by (cases rawData) simp_all
  have bad: "normalize_table ns rawData = Inl (TypeError Convert_String)"
    if "\<not> list_all row_ok (r # rs)"
    unfolding n using that by (rule forEach_not_ok)
  have good: "\<exists>l. normalize_table ns rawData = Inr l \<and>
              l_kpis l =
                \<lparr>totalOpportunities = spec_number (js_at (firstRowCells (JArr (r # rs))) 0),
                 qualifiedConversations = spec_number (js_at (firstRowCells (JArr (r # rs))) 1),
                 convertedClients = spec_number (js_at (firstRowCells (JArr (r # rs))) 2),
                 conversionRate = \<bar>spec_number (js_at (firstRowCells (JArr (r # rs))) 3)\<bar>,
                 totalRevenue = spec_number (js_at (firstRowCells (JArr (r # rs))) 4),
                 activeClientLoad =
                   (if spec_number (js_at (firstRowCells (JArr (r # rs))) 14) = 0 then 1
                    else spec_number (js_at (firstRowCells (JArr (r # rs))) 14))\<rparr> \<and>
              l_revenueTrend l = concat (map (spec_revenue_entries ns) (r # rs)) \<and>
              l_weeklyConversations l = concat (map (spec_activity_entries ns) (r # rs)) \<and>
              l_sourceConversions l = concat (map (spec_source_entries ns) (r # rs))"
    if ok: "list_all row_ok (r # rs)"
  proof -
    from forEach_ok[OF ok] obtain l where
      f: "forEach ns \<lparr>l_kpis = kpis_of (JArr (r # rs)), l_revenueTrend = [],
        l_weeklyConversations = [], l_sourceConversions = []\<rparr> (r # rs) = Inr l" by blast
    from forEach_entries[OF f] have
      "l_kpis l = kpis_of (JArr (r # rs))"
      "l_revenueTrend l = concat (map (spec_revenue_entries ns) (r # rs))"
      "l_weeklyConversations l = concat (map (spec_activity_entries ns) (r # rs))"
      "l_sourceConversions l = concat (map (spec_source_entries ns) (r # rs))"
      by simp_all
    with f show ?thesis
      unfolding n by (simp add: kpis_of_def Let_def or_one_def getNum_spec)
  qed
  from good bad show ?thesis by blast
qed

theorem normalize_table_strict_numbers_witness:
  "rows_of (payload rows_mixed) = Some (JArr rows_mixed) \<and> list_all row_ok rows_mixed \<and>
   normalize_table digits_toString (payload rows_mixed) = Inr locals_mixed \<and>
   rows_of (payload rows_nested_toString) = Some (JArr rows_nested_toString) \<and>
   \<not> list_all row_ok rows_nested_toString \<and>
   normalize_table digits_toString (payload rows_nested_toString) =
     Inl (TypeError Convert_String)"
  using normalize_table_strict_numbers [of "payload rows_mixed" "hd rows_mixed" "tl rows_mixed" digits_toString]
    normalize_table_strict_numbers [of "payload rows_nested_toString" "hd rows_nested_toString"
      "tl rows_nested_toString" digits_toString]
  by (simp add: rows_mixed_def cells_mixed_def locals_mixed_def rows_nested_toString_def
      row_ok_def label_ok_def norm_eval)

text \<open>C4 as stated fails: a table of one row whose label cell holds an object owning
  toString, a non-numeric cell, makes the pass throw.\<close>

theorem toString_label_throws:
  "rows_of (payload [crow cells_toString_label]) = Some (JArr [crow cells_toString_label]) \<and>
   normalize_table digits_toString (payload [crow cells_toString_label]) =
     Inl (TypeError Convert_String)"
  by (simp add: cells_toString_label_def norm_eval)

section \<open>The active client load\<close>



section \<open>Labels\<close>

text \<open>
  C7: for every row whose period-label cell coerces to the empty string, nothing is
  appended for that row to the revenue series (label at offset 5) or to the activity
  series (label at offset 7), whatever the numeric column holds.
\<close>

theorem empty_label_appends_nothing:
  assumes "opt_chain (Some r) ''c'' = Some cells" and "row_callback ns l r = Inr l'"
  shows "(getStr ns (js_at cells 5) = Inr [] \<longrightarrow> l_revenueTrend l' = l_revenueTrend l) \<and>
         (getStr ns (js_at cells 7) = Inr [] \<longrightarrow>
            l_weeklyConversations l' = l_weeklyConversations l)"
proof (cases "truthy (Some cells)")
  case True
  from assms(1) True assms(2) show ?thesis
    by (rule row_callback_Inr) (auto simp: push_revenue_def push_weekly_def split: option.splits)
next
  case False
  with assms show ?thesis by (simp add: row_callback_skip)
qed

theorem empty_label_appends_nothing_witness:
  "opt_chain (Some (crow cells_empty_labels)) ''c'' = Some (JArr cells_empty_labels) \<and>
   getStr digits_toString (js_at (JArr cells_empty_labels) 5) = Inr [] \<and>
   opt_chain (js_at (JArr cells_empty_labels) 6) ''v'' = Some (JNum 1000) \<and>
   getStr digits_toString (js_at (JArr cells_empty_labels) 7) = Inr [] \<and>
   opt_chain (js_at (JArr cells_empty_labels) 8) ''v'' = Some (JNum 3) \<and>
   row_callback digits_toString locals_C2 (crow cells_empty_labels) = Inr locals_C2"
  using empty_label_appends_nothing [of "crow cells_empty_labels" "JArr cells_empty_labels"
      digits_toString locals_C2 locals_C2]
  by (simp add: cells_empty_labels_def locals_C2_def norm_eval)

lemma getStr_value:
  assumes "opt_chain cell ''v'' = Some v" and "v \<noteq> JNull" and "js_String ns v = Some s"
  shows "getStr ns cell = Inr s"
proof -
  have "truthy cell"
    using assms(1)
    by (cases "(cell, ''v'')" rule: opt_chain.cases; cases cell rule: truthy.cases) auto
  with assms show ?thesis by (cases v) (simp_all add: getStr_def del: js_String.simps)
qed

text \<open>
  C10, as amended: label cells are not required to hold strings. For every row whose
  period-label or source-name cell holds a non-null value that String converts to a
  non-empty text (a number gives its digits), the label is that text, and the row gets
  its entry in the revenue series, the activity series or the breakdown when the
  numeric column beside it holds a number.
\<close>

theorem label_of_any_value:
  assumes "opt_chain (Some r) ''c'' = Some cells" and "truthy (Some cells)"
    and "row_callback ns l r = Inr l'"
  shows "(opt_chain (js_at cells 5) ''v'' = Some v1 \<and> v1 \<noteq> JNull \<and>
          js_String ns v1 = Some s1 \<and> s1 \<noteq> [] \<and>
          opt_chain (js_at cells 6) ''v'' = Some (JNum x1) \<longrightarrow>
            l_revenueTrend l' = l_revenueTrend l @ [\<lparr>month = s1, revenue = x1\<rparr>]) \<and>
         (opt_chain (js_at cells 7) ''v'' = Some v2 \<and> v2 \<noteq> JNull \<and>
          js_String ns v2 = Some s2 \<and> s2 \<noteq> [] \<and>
          opt_chain (js_at cells 8) ''v'' = Some (JNum x2) \<longrightarrow>
            l_weeklyConversations l' = l_weeklyConversations l @ [\<lparr>week = s2, count = x2\<rparr>]) \<and>
         (opt_chain (js_at cells 9) ''v'' = Some v3 \<and> v3 \<noteq> JNull \<and>
          js_String ns v3 = Some s3 \<and> s3 \<noteq> [] \<and>
          opt_chain (js_at cells 12) ''v'' = Some (JNum x3) \<longrightarrow>
            l_sourceConversions l' = l_sourceConversions l @
              [\<lparr>source = s3, sc_qualified = getNum (js_at cells 10),
                converted = getNum (js_at cells 11), rate = \<bar>x3\<bar>,
                sc_revenue = getNum (js_at cells 13)\<rparr>]) \<and>
         js_String ns (JNum n) = Some (ns n)"
  using assms(1,2,3)
proof (rule row_callback_Inr)
  fix m w s
  assume g: "getStr ns (js_at cells 5) = Inr m" "getStr ns (js_at cells 7) = Inr w"
    "getStr ns (js_at cells 9) = Inr s"
    and l': "l' = push_source s (opt_chain (js_at cells 12) ''v'') cells
           (push_weekly w (opt_chain (js_at cells 8) ''v'')
             (push_revenue m (opt_chain (js_at cells 6) ''v'') l))"
  have 1: "l_revenueTrend l' = l_revenueTrend l @ [\<lparr>month = s1, revenue = x1\<rparr>]"
    if "opt_chain (js_at cells 5) ''v'' = Some v1" "v1 \<noteq> JNull" "js_String ns v1 = Some s1"
       "s1 \<noteq> []" "opt_chain (js_at cells 6) ''v'' = Some (JNum x1)"
  proof -
    have "m = s1" using getStr_value[OF that(1,2,3)] g(1) by simp
    with that(4,5) show ?thesis unfolding l' by (simp add: push_revenue_def)
  qed
  have 2: "l_weeklyConversations l' = l_weeklyConversations l @ [\<lparr>week = s2, count = x2\<rparr>]"
    if "opt_chain (js_at cells 7) ''v'' = Some v2" "v2 \<noteq> JNull" "js_String ns v2 = Some s2"
       "s2 \<noteq> []" "opt_chain (js_at cells 8) ''v'' = Some (JNum x2)"
  proof -
    have "w = s2" using getStr_value[OF that(1,2,3)] g(2) by simp
    with that(4,5) show ?thesis unfolding l' by (simp add: push_weekly_def)
  qed
  have 3: "l_sourceConversions l' = l_sourceConversions l @
              [\<lparr>source = s3, sc_qualified = getNum (js_at cells 10),
                converted = getNum (js_at cells 11), rate = \<bar>x3\<bar>,
                sc_revenue = getNum (js_at cells 13)\<rparr>]"
    if "opt_chain (js_at cells 9) ''v'' = Some v3" "v3 \<noteq> JNull" "js_String ns v3 = Some s3"
       "s3 \<noteq> []" "opt_chain (js_at cells 12) ''v'' = Some (JNum x3)"
  proof -
    have "s = s3" using getStr_value[OF that(1,2,3)] g(3) by simp
    with that(4,5) show ?thesis unfolding l' by (simp add: push_source_def)
  qed
  from 1 2 3 show ?thesis by simp
qed

theorem label_of_any_value_witness:
  "opt_chain (js_at (JArr cells_number_labels) 5) ''v'' = Some (JNum 2024) \<and>
   js_String digits_toString (JNum 2024) = Some ''2024'' \<and>
   opt_chain (js_at (JArr cells_number_labels) 7) ''v'' = Some (JBool True) \<and>
   opt_chain (js_at (JArr cells_number_labels) 9) ''v'' = Some (JNum 7) \<and>
   row_callback digits_toString locals_C2 (crow cells_number_labels) = Inr locals_number_labels"
  using label_of_any_value [of "crow cells_number_labels" "JArr cells_number_labels"
      digits_toString locals_C2 locals_number_labels
      "JNum 2024" "''2024''" 1000 "JBool True" "''true''" 3 "JNum 7" "''7''" "- 0.5" 2024]
  by (simp add: cells_number_labels_def locals_C2_def locals_number_labels_def
      digits_toString_def norm_eval)

text \<open>C10 as stated fails: the empty string is a non-null value and leaves the row
  without an entry beside a valid number, and an object owning toString is not
  converted at all.\<close>

theorem label_empty_or_unconvertible:
  "opt_chain (js_at (JArr cells_empty_labels) 5) ''v'' = Some (JStr []) \<and>
   opt_chain (js_at (JArr cells_empty_labels) 6) ''v'' = Some (JNum 1000) \<and>
   row_callback digits_toString locals_C2 (crow cells_empty_labels) = Inr locals_C2 \<and>
   opt_chain (js_at (JArr cells_toString_label) 5) ''v'' = Some (JObj [(''toString'', JNum 5)]) \<and>
   row_callback digits_toString locals_C2 (crow cells_toString_label) =
     Inl (TypeError Convert_String)"
  by (simp add: cells_empty_labels_def cells_toString_label_def locals_C2_def norm_eval)

section \<open>Rates\<close>





end
